theory Spec2Isabelle
  imports Complex_Main
begin

section \<open>Shared conventions\<close>

text \<open>
  The two protocol modules \<open>protocols/bb84.py\<close> and \<open>protocols/e91.py\<close> are embedded
  function by function. Python floats are modelled as reals, Python lists as lists,
  instance attributes as the fields of a record that every method takes and returns.
  The \<open>print\<close> calls are dropped, except where the formatted expression can raise.
\<close>

datatype pyerror = ZeroDivisionError | ValueError | OverflowError | IndexError

text \<open>
  The module \<open>random\<close> of the Python library is not part of the repository. It is taken
  as a parameter: a generator state of an arbitrary type and the four library calls the
  protocols make, each returning its value and the next generator state.
  \<open>random_sample n k\<close> stands for \<open>random.sample(range(n), k)\<close> on arguments the
  library accepts.
\<close>

record 'g random_module =
  random_random :: "'g \<Rightarrow> real \<times> 'g"
  random_randint :: "int \<Rightarrow> int \<Rightarrow> 'g \<Rightarrow> int \<times> 'g"
  random_choice :: "int list \<Rightarrow> 'g \<Rightarrow> int \<times> 'g"
  random_sample :: "nat \<Rightarrow> nat \<Rightarrow> 'g \<Rightarrow> nat list \<times> 'g"

text \<open>
  Floats are reals here, with one exception. The power \<open>10 ** x\<close> of a float is
  \<open>float_pow\<close> of the interpreter, which raises \<open>OverflowError\<close> when the result is too
  large for a double. That changes the control flow, so it is kept: \<open>float_max\<close> is the
  largest finite double, and a power beyond it raises. Rounding is not modelled, and an
  overflow of \<open>*\<close>, which gives \<open>inf\<close> and raises nothing, has no counterpart.
\<close>

definition float_max :: real where
  "float_max = (2 ^ 53 - 1) * 2 ^ 971"

definition pow10 :: "real \<Rightarrow> pyerror + real" where
  "pow10 x = (if float_max < 10 powr x then Inl OverflowError else Inr (10 powr x))"

text \<open>Python's \<open>int(x)\<close> on a float truncates towards zero.\<close>

definition py_int :: "real \<Rightarrow> int" where
  "py_int x = (if 0 \<le> x then \<lfloor>x\<rfloor> else \<lceil>x\<rceil>)"

text \<open>\<open>xs[:k]\<close> for an integer \<open>k\<close>: a negative \<open>k\<close> counts from the end.\<close>

definition py_prefix :: "'a list \<Rightarrow> int \<Rightarrow> 'a list" where
  "py_prefix xs k = (if 0 \<le> k then take (nat k) xs else take (nat (int (length xs) + k)) xs)"

text \<open>The lambda \<open>h2\<close> of both \<open>security_analysis\<close> methods.\<close>

definition h2 :: "real \<Rightarrow> real" where
  "h2 x = (if 0 < x \<and> x < 1 then - x * log 2 x - (1 - x) * log 2 (1 - x) else 0)"

text \<open>The text of the \<open>error\<close> entry of a result dictionary.\<close>

datatype run_error =
    No_sifted_key_generated
  | QBER_exceeds_threshold real real
  | No_coincident_detections
  | No_key_material_generated
  | Security_conditions_not_met

section \<open>BB84 (protocols/bb84.py)\<close>

datatype Basis = RECTILINEAR | DIAGONAL

datatype Bit = ZERO | ONE

record Photon =
  photon_bit :: Bit
  photon_basis :: Basis
  photon_is_decoy :: bool
  photon_intensity :: real

record Detection =
  det_bit :: "Bit option"
  det_basis :: Basis
  det_detected :: bool
  det_dark_count :: bool
  det_timestamp :: real

record ChannelParameters =
  loss_db_per_km :: real
  distance_km :: real
  depolarization_rate :: real
  detector_efficiency :: real
  dark_count_rate :: real
  timing_jitter_ns :: real

record BB84Parameters =
  pulse_rate_hz :: real
  duration_seconds :: real
  basis_choice_prob :: real
  decoy_state_prob :: real
  weak_intensity :: real
  decoy_intensity :: real
  error_correction_efficiency :: real
  privacy_amplification_factor :: real
  qber_threshold :: real

text \<open>The defaults of the two dataclasses.\<close>

definition default_ChannelParameters :: ChannelParameters where
  "default_ChannelParameters =
     \<lparr>loss_db_per_km = 0.2, distance_km = 50, depolarization_rate = 0.001,
      detector_efficiency = 0.8, dark_count_rate = 1 / 10 ^ 6, timing_jitter_ns = 100\<rparr>"

definition default_BB84Parameters :: BB84Parameters where
  "default_BB84Parameters =
     \<lparr>pulse_rate_hz = 10 ^ 9, duration_seconds = 1, basis_choice_prob = 0.5,
      decoy_state_prob = 0.5, weak_intensity = 0.2, decoy_intensity = 0.1,
      error_correction_efficiency = 1.2, privacy_amplification_factor = 2,
      qber_threshold = 0.11\<rparr>"

record BB84Protocol =
  params :: BB84Parameters
  channel :: ChannelParameters
  alice_bits :: "Bit list"
  alice_bases :: "Basis list"
  alice_intensities :: "real list"
  bob_measurements :: "Detection list"
  sifted_key :: "Bit list"
  error_rate :: real
  final_key :: "Bit list"
  transmission_prob :: real

definition calculate_transmission :: "ChannelParameters \<Rightarrow> pyerror + real" where
  "calculate_transmission c =
     (case pow10 (- loss_db_per_km c * distance_km c / 10) of
        Inl e \<Rightarrow> Inl e
      | Inr loss_linear \<Rightarrow> Inr (loss_linear * detector_efficiency c))"

text \<open>
  \<open>BB84Protocol.__init__\<close>. The constructor has no \<open>raise\<close> and no check of its
  arguments; the one exception that can leave it is the \<open>OverflowError\<close> of the power in
  \<open>_calculate_transmission\<close>.
\<close>

definition BB84Protocol_init :: "BB84Parameters \<Rightarrow> ChannelParameters \<Rightarrow> pyerror + BB84Protocol" where
  "BB84Protocol_init p c =
     (case calculate_transmission c of
        Inl e \<Rightarrow> Inl e
      | Inr t \<Rightarrow>
          Inr \<lparr>params = p, channel = c, alice_bits = [], alice_bases = [],
               alice_intensities = [], bob_measurements = [], sifted_key = [],
               error_rate = 0, final_key = [], transmission_prob = t\<rparr>)"

definition generate_random_basis :: "'g random_module \<Rightarrow> BB84Protocol \<Rightarrow> 'g \<Rightarrow> Basis \<times> 'g" where
  "generate_random_basis R self g =
     (let (u, g1) = random_random R g
      in (if u < basis_choice_prob (params self) then RECTILINEAR else DIAGONAL, g1))"

definition generate_random_bit :: "'g random_module \<Rightarrow> 'g \<Rightarrow> Bit \<times> 'g" where
  "generate_random_bit R g =
     (let (u, g1) = random_random R g in (if u < 0.5 then ZERO else ONE, g1))"

definition choose_intensity :: "'g random_module \<Rightarrow> BB84Protocol \<Rightarrow> 'g \<Rightarrow> (real \<times> bool) \<times> 'g" where
  "choose_intensity R self g =
     (let (rand, g1) = random_random R g
      in if rand < decoy_state_prob (params self) / 2 then ((decoy_intensity (params self), True), g1)
         else if rand < decoy_state_prob (params self) then ((weak_intensity (params self), True), g1)
         else ((1, False), g1))"

text \<open>
  One iteration of the loop of \<open>alice_prepare\<close>, and the loop over \<open>range(num_pulses)\<close>.
\<close>

definition alice_prepare_step ::
  "'g random_module \<Rightarrow> Photon list \<times> BB84Protocol \<times> 'g \<Rightarrow> Photon list \<times> BB84Protocol \<times> 'g" where
  "alice_prepare_step R st =
     (let (photons, self, g) = st;
          (b, g1) = generate_random_bit R g;
          (bs, g2) = generate_random_basis R self g1;
          ((inten, decoy), g3) = choose_intensity R self g2;
          photon = \<lparr>photon_bit = b, photon_basis = bs, photon_is_decoy = decoy,
                    photon_intensity = inten\<rparr>
      in (photons @ [photon],
          self\<lparr>alice_bits := alice_bits self @ [b],
               alice_bases := alice_bases self @ [bs],
               alice_intensities := alice_intensities self @ [inten]\<rparr>,
          g3))"

fun alice_prepare_loop ::
  "'g random_module \<Rightarrow> nat \<Rightarrow> Photon list \<times> BB84Protocol \<times> 'g \<Rightarrow> Photon list \<times> BB84Protocol \<times> 'g" where
  "alice_prepare_loop R 0 st = st"
| "alice_prepare_loop R (Suc n) st = alice_prepare_loop R n (alice_prepare_step R st)"

definition alice_prepare :: "'g random_module \<Rightarrow> BB84Protocol \<Rightarrow> 'g \<Rightarrow> Photon list \<times> BB84Protocol \<times> 'g" where
  "alice_prepare R self g =
     (let num_pulses = py_int (pulse_rate_hz (params self) * duration_seconds (params self))
      in alice_prepare_loop R (nat num_pulses) ([], self, g))"

text \<open>
  \<open>quantum_channel\<close>. The source flips the basis of the photon object in place; Alice's
  record \<open>alice_bases\<close> holds the enum value and is not affected. The percentage printed
  after the loop divides by \<open>len(photons)\<close>.
\<close>

fun quantum_channel_loop ::
  "'g random_module \<Rightarrow> BB84Protocol \<Rightarrow> Photon list \<Rightarrow> Photon option list \<times> 'g \<Rightarrow> Photon option list \<times> 'g" where
  "quantum_channel_loop R self [] st = st"
| "quantum_channel_loop R self (photon # rest) (received_photons, g) =
     (let trans_prob = transmission_prob self * photon_intensity photon;
          (u, g1) = random_random R g
      in if u < trans_prob then
           (let (v, g2) = random_random R g1;
                photon' = (if v < depolarization_rate (channel self)
                           then photon\<lparr>photon_basis :=
                                  (if photon_basis photon = RECTILINEAR then DIAGONAL else RECTILINEAR)\<rparr>
                           else photon)
            in quantum_channel_loop R self rest (received_photons @ [Some photon'], g2))
         else quantum_channel_loop R self rest (received_photons @ [None], g1))"

definition quantum_channel ::
  "'g random_module \<Rightarrow> BB84Protocol \<Rightarrow> Photon list \<Rightarrow> 'g \<Rightarrow> pyerror + (Photon option list \<times> 'g)" where
  "quantum_channel R self photons g =
     (let st = quantum_channel_loop R self photons ([], g)
      in if length photons = 0 then Inl ZeroDivisionError else Inr st)"

text \<open>\<open>bob_measure\<close>: the loop carries the index \<open>i\<close> of \<open>enumerate\<close>.\<close>

fun bob_measure_loop ::
  "'g random_module \<Rightarrow> nat \<Rightarrow> nat \<Rightarrow> Photon option list \<Rightarrow> Detection list \<times> BB84Protocol \<times> 'g \<Rightarrow>
   Detection list \<times> BB84Protocol \<times> 'g" where
  "bob_measure_loop R n i [] st = st"
| "bob_measure_loop R n i (photon # rest) (detections, self, g) =
     (let (bs, g1) = generate_random_basis R self g;
          (detection, g') =
            (case photon of
               None \<Rightarrow>
                 (let (u, g2) = random_random R g1
                  in if u < dark_count_rate (channel self) * duration_seconds (params self) / real n then
                       (let (b, g3) = generate_random_bit R g2
                        in (\<lparr>det_bit = Some b, det_basis = bs, det_detected = True,
                             det_dark_count = True,
                             det_timestamp = real i * duration_seconds (params self) / real n\<rparr>, g3))
                     else
                       (\<lparr>det_bit = None, det_basis = bs, det_detected = False,
                         det_dark_count = False, det_timestamp = 0\<rparr>, g2))
             | Some ph \<Rightarrow>
                 (let (b, g2) = (if photon_basis ph = bs then (photon_bit ph, g1)
                                 else generate_random_bit R g1)
                  in (\<lparr>det_bit = Some b, det_basis = bs, det_detected = True,
                       det_dark_count = False,
                       det_timestamp = real i * duration_seconds (params self) / real n\<rparr>, g2)))
      in bob_measure_loop R n (Suc i) rest
           (detections @ [detection],
            self\<lparr>bob_measurements := bob_measurements self @ [detection]\<rparr>, g'))"

definition bob_measure ::
  "'g random_module \<Rightarrow> BB84Protocol \<Rightarrow> Photon option list \<Rightarrow> 'g \<Rightarrow> Detection list \<times> BB84Protocol \<times> 'g" where
  "bob_measure R self photons g = bob_measure_loop R (length photons) 0 photons ([], self, g)"

text \<open>
  \<open>basis_reconciliation\<close> walks \<open>zip(self.alice_bases, self.bob_measurements)\<close> with its
  index and reads \<open>self.alice_intensities[i]\<close> behind a bound check and
  \<open>self.alice_bits[i]\<close> without one: past the end of \<open>alice_bits\<close> the subscript raises
  \<open>IndexError\<close>, and \<open>self.sifted_key\<close> is not assigned.
\<close>

fun basis_reconciliation_loop ::
  "BB84Protocol \<Rightarrow> nat \<Rightarrow> (Basis \<times> Detection) list \<Rightarrow> Bit list \<times> Bit option list \<Rightarrow>
   pyerror + (Bit list \<times> Bit option list)" where
  "basis_reconciliation_loop self i [] acc = Inr acc"
| "basis_reconciliation_loop self i ((alice_basis, detection) # rest) (alice_sifted, bob_sifted) =
     (if det_detected detection \<and> alice_basis = det_basis detection
         \<and> \<not> (i < length (alice_intensities self) \<and> alice_intensities self ! i < 1)
      then if i < length (alice_bits self)
           then basis_reconciliation_loop self (Suc i) rest
                  (alice_sifted @ [alice_bits self ! i], bob_sifted @ [det_bit detection])
           else Inl IndexError
      else basis_reconciliation_loop self (Suc i) rest (alice_sifted, bob_sifted))"

definition basis_reconciliation ::
  "BB84Protocol \<Rightarrow> pyerror + ((Bit list \<times> Bit option list) \<times> BB84Protocol)" where
  "basis_reconciliation self =
     (case basis_reconciliation_loop self 0 (zip (alice_bases self) (bob_measurements self)) ([], []) of
        Inl e \<Rightarrow> Inl e
      | Inr (alice_sifted, bob_sifted) \<Rightarrow>
          Inr ((alice_sifted, bob_sifted), self\<lparr>sifted_key := alice_sifted\<rparr>))"

text \<open>
  \<open>error_estimation\<close>. Bob's sifted entries are the \<open>bit\<close> fields of detections, of type
  \<open>Optional[Bit]\<close>; Alice's are bits, so the comparison \<open>a != b\<close> is between \<open>Some a\<close>
  and \<open>b\<close>. The early return leaves \<open>self.error_rate\<close> as it was.
\<close>

definition error_estimation :: "BB84Protocol \<Rightarrow> Bit list \<Rightarrow> Bit option list \<Rightarrow> real \<times> BB84Protocol" where
  "error_estimation self alice_sifted bob_sifted =
     (if length alice_sifted \<noteq> length bob_sifted \<or> length alice_sifted = 0 then (1, self)
      else
        (let errors = length (filter (\<lambda>(a, b). Some a \<noteq> b) (zip alice_sifted bob_sifted));
             self' = self\<lparr>error_rate := real errors / real (length alice_sifted)\<rparr>
         in (error_rate self', self')))"

record BB84_metrics =
  m_qber :: real
  m_secure :: bool
  m_estimated_eve_information :: real
  m_transmission_distance_km :: real
  m_raw_key_rate_bps :: real
  m_secure_key_rate_bps :: real

definition security_analysis :: "BB84Protocol \<Rightarrow> pyerror + BB84_metrics" where
  "security_analysis self =
     (if duration_seconds (params self) = 0 then Inl ZeroDivisionError
      else
        (let qber = error_rate self;
             secure = (error_rate self < qber_threshold (params self));
             eve = (if error_rate self > 0 then min 1 (2 * error_rate self) else 0);
             raw = real (length (sifted_key self)) / duration_seconds (params self);
             rate = (if secure then
                       (let secure_fraction =
                              max 0 (1 - error_correction_efficiency (params self) * h2 (error_rate self)
                                       - h2 (error_rate self))
                        in raw * secure_fraction)
                     else 0)
         in Inr \<lparr>m_qber = qber, m_secure = secure, m_estimated_eve_information = eve,
                 m_transmission_distance_km = distance_km (channel self),
                 m_raw_key_rate_bps = raw, m_secure_key_rate_bps = rate\<rparr>))"

definition error_correction ::
  "BB84Protocol \<Rightarrow> 'a list \<Rightarrow> 'b list \<Rightarrow> 'a list \<times> 'b list" where
  "error_correction self alice_key bob_key =
     (if length alice_key \<noteq> length bob_key then (alice_key, bob_key)
      else
        (let info_leaked = py_int (error_correction_efficiency (params self) * real (length alice_key)
                                     * error_rate self * log 2 2);
             key_length = max 0 (int (length alice_key) - info_leaked)
         in (py_prefix alice_key key_length, py_prefix bob_key key_length)))"

definition privacy_amplification :: "BB84Protocol \<Rightarrow> Bit list \<Rightarrow> Bit list \<times> BB84Protocol" where
  "privacy_amplification self key =
     (if length key = 0 then ([], self)
      else
        (let eve_info = min (int (length key))
                            (py_int (real (length key) * error_rate self
                                       * privacy_amplification_factor (params self)));
             final_length = max 0 (int (length key) - eve_info);
             final_key' = py_prefix key final_length
         in (final_key', self\<lparr>final_key := final_key'\<rparr>)))"

record BB84_result =
  res_error :: "run_error option"
  res_success :: bool
  res_final_key_bits :: "nat option"
  res_metrics :: "BB84_metrics option"
  res_key_rate_bps :: "real option"
  res_efficiency :: "real option"

definition run_protocol ::
  "'g random_module \<Rightarrow> BB84Protocol \<Rightarrow> 'g \<Rightarrow> pyerror + (BB84_result \<times> BB84Protocol \<times> 'g)" where
  "run_protocol R self g =
     (let (photons, self1, g1) = alice_prepare R self g
      in case quantum_channel R self1 photons g1 of
           Inl e \<Rightarrow> Inl e
         | Inr (received_photons, g2) \<Rightarrow>
             (let (detections, self2, g3) = bob_measure R self1 received_photons g2
              in case basis_reconciliation self2 of
                   Inl e \<Rightarrow> Inl e
                 | Inr ((alice_sifted, bob_sifted), self3) \<Rightarrow>
                     if length alice_sifted = 0 then
                       Inr (\<lparr>res_error = Some No_sifted_key_generated, res_success = False,
                             res_final_key_bits = None, res_metrics = None,
                             res_key_rate_bps = None, res_efficiency = None\<rparr>, self3, g3)
                     else
                       (let (qber, self4) = error_estimation self3 alice_sifted bob_sifted
                        in case security_analysis self4 of
                             Inl e \<Rightarrow> Inl e
                           | Inr security_metrics \<Rightarrow>
                               if \<not> m_secure security_metrics then
                                 Inr (\<lparr>res_error = Some (QBER_exceeds_threshold qber
                                                          (qber_threshold (params self4))),
                                       res_success = False, res_final_key_bits = None,
                                       res_metrics = Some security_metrics,
                                       res_key_rate_bps = None, res_efficiency = None\<rparr>, self4, g3)
                               else
                                 (let (alice_corrected, bob_corrected) =
                                        error_correction self4 alice_sifted bob_sifted;
                                      (final_key', self5) = privacy_amplification self4 alice_corrected
                                  in Inr (\<lparr>res_error = None, res_success = True,
                                           res_final_key_bits = Some (length final_key'),
                                           res_metrics = Some security_metrics,
                                           res_key_rate_bps =
                                             Some (m_secure_key_rate_bps security_metrics),
                                           res_efficiency =
                                             Some (real (length final_key') / real (length photons))\<rparr>,
                                          self5, g3)))))"

section \<open>E91 (protocols/e91.py)\<close>

record EntangledPair =
  pair_state :: string
  pair_creation_time :: real
  pair_fidelity :: real

record Measurement =
  basis_angle :: int
  result :: int
  timestamp :: real
  detected :: bool

record E91Parameters =
  pair_generation_rate_hz :: real
  e91_duration_seconds :: real
  detection_efficiency :: real
  e91_dark_count_rate :: real
  bell_test_fraction :: real
  timing_window_ns :: real
  bell_violation_threshold :: real
  e91_error_correction_efficiency :: real
  e91_privacy_amplification_factor :: real

record E91_ChannelParameters =
  e91_loss_db_per_km :: real
  alice_distance_km :: real
  bob_distance_km :: real
  e91_depolarization_rate :: real
  e91_timing_jitter_ns :: real

definition default_E91Parameters :: E91Parameters where
  "default_E91Parameters =
     \<lparr>pair_generation_rate_hz = 10 ^ 6, e91_duration_seconds = 1, detection_efficiency = 0.8,
      e91_dark_count_rate = 1 / 10 ^ 6, bell_test_fraction = 0.1, timing_window_ns = 1,
      bell_violation_threshold = 2, e91_error_correction_efficiency = 1.2,
      e91_privacy_amplification_factor = 2\<rparr>"

definition default_E91_ChannelParameters :: E91_ChannelParameters where
  "default_E91_ChannelParameters =
     \<lparr>e91_loss_db_per_km = 0.2, alice_distance_km = 25, bob_distance_km = 25,
      e91_depolarization_rate = 0.001, e91_timing_jitter_ns = 100\<rparr>"

record E91Protocol =
  e91_params :: E91Parameters
  e91_channel :: E91_ChannelParameters
  alice_measurements :: "Measurement list"
  e91_bob_measurements :: "Measurement list"
  bell_test_pairs :: "(Measurement \<times> Measurement) list"
  key_pairs :: "(Measurement \<times> Measurement) list"
  bell_parameter :: real
  e91_sifted_key :: "int list"
  e91_final_key :: "int list"
  alice_transmission :: real
  bob_transmission :: real

definition e91_calculate_transmission ::
  "E91Parameters \<Rightarrow> E91_ChannelParameters \<Rightarrow> real \<Rightarrow> pyerror + real" where
  "e91_calculate_transmission p c distance =
     (case pow10 (- e91_loss_db_per_km c * distance / 10) of
        Inl e \<Rightarrow> Inl e
      | Inr loss_linear \<Rightarrow> Inr (loss_linear * detection_efficiency p))"

text \<open>
  \<open>E91Protocol.__init__\<close>: Alice's transmission is computed first, then Bob's.
\<close>

definition E91Protocol_init :: "E91Parameters \<Rightarrow> E91_ChannelParameters \<Rightarrow> pyerror + E91Protocol" where
  "E91Protocol_init p c =
     (case e91_calculate_transmission p c (alice_distance_km c) of
        Inl e \<Rightarrow> Inl e
      | Inr ta \<Rightarrow>
          (case e91_calculate_transmission p c (bob_distance_km c) of
             Inl e \<Rightarrow> Inl e
           | Inr tb \<Rightarrow>
               Inr \<lparr>e91_params = p, e91_channel = c, alice_measurements = [],
                    e91_bob_measurements = [], bell_test_pairs = [], key_pairs = [],
                    bell_parameter = 0, e91_sifted_key = [], e91_final_key = [],
                    alice_transmission = ta, bob_transmission = tb\<rparr>))"

fun generate_entangled_pairs_loop ::
  "'g random_module \<Rightarrow> E91Protocol \<Rightarrow> nat \<Rightarrow> nat \<Rightarrow> nat \<Rightarrow> EntangledPair list \<times> 'g \<Rightarrow> EntangledPair list \<times> 'g" where
  "generate_entangled_pairs_loop R self num_pairs i 0 st = st"
| "generate_entangled_pairs_loop R self num_pairs i (Suc k) (pairs, g) =
     (let (u, g1) = random_random R g;
          fidelity = 1 - u * e91_depolarization_rate (e91_channel self);
          pair = \<lparr>pair_state = ''phi_plus'',
                  pair_creation_time = real i * e91_duration_seconds (e91_params self) / real num_pairs,
                  pair_fidelity = max 0.5 fidelity\<rparr>
      in generate_entangled_pairs_loop R self num_pairs (Suc i) k (pairs @ [pair], g1))"

definition generate_entangled_pairs :: "'g random_module \<Rightarrow> E91Protocol \<Rightarrow> 'g \<Rightarrow> EntangledPair list \<times> 'g" where
  "generate_entangled_pairs R self g =
     (let num_pairs = nat (py_int (pair_generation_rate_hz (e91_params self)
                                     * e91_duration_seconds (e91_params self)))
      in generate_entangled_pairs_loop R self num_pairs 0 num_pairs ([], g))"

text \<open>
  \<open>_calculate_measurement_result\<close>. When the state is \<open>phi_plus\<close> and the angle is none
  of 0, 90, 45, 135, control falls through to the last \<open>return\<close> after \<open>base_result\<close> was
  drawn.
\<close>

definition calculate_measurement_result ::
  "'g random_module \<Rightarrow> EntangledPair \<Rightarrow> int \<Rightarrow> string \<Rightarrow> 'g \<Rightarrow> int option \<times> 'g" where
  "calculate_measurement_result R pair angle party g =
     (let (u, g1) = random_random R g
      in if u > 0.95 then (let (r, g2) = random_randint R 0 1 g1 in (Some r, g2))
         else if pair_state pair = ''phi_plus'' then
           (let (base_result, g2) = random_randint R 0 1 g1
            in if angle \<in> set [0, 90] then (Some base_result, g2)
               else if angle = 45 then
                 (let (v, g3) = random_random R g2
                  in (Some (if v < pair_fidelity pair then base_result else 1 - base_result), g3))
               else if angle = 135 then
                 (let (v, g3) = random_random R g2
                  in (Some (if v < pair_fidelity pair then 1 - base_result else base_result), g3))
               else (let (r, g3) = random_randint R 0 1 g2 in (Some r, g3)))
         else (let (r, g2) = random_randint R 0 1 g1 in (Some r, g2)))"

fun alice_measure_loop ::
  "'g random_module \<Rightarrow> EntangledPair list \<Rightarrow> Measurement option list \<times> E91Protocol \<times> 'g \<Rightarrow>
   Measurement option list \<times> E91Protocol \<times> 'g" where
  "alice_measure_loop R [] st = st"
| "alice_measure_loop R (pair # rest) (measurements, self, g) =
     (let (u, g1) = random_random R g
      in if u > alice_transmission self then
           alice_measure_loop R rest (measurements @ [None], self, g1)
         else
           (let (basis_choice, g2) = random_choice R [0, 45, 90] g1;
                (res, g3) = calculate_measurement_result R pair basis_choice ''alice'' g2
            in case res of
                 Some r \<Rightarrow>
                   (let measurement = \<lparr>basis_angle = basis_choice, result = r,
                                        timestamp = pair_creation_time pair, detected = True\<rparr>
                    in alice_measure_loop R rest
                         (measurements @ [Some measurement],
                          self\<lparr>alice_measurements := alice_measurements self @ [measurement]\<rparr>, g3))
               | None \<Rightarrow> alice_measure_loop R rest (measurements @ [None], self, g3)))"

text \<open>The percentage printed after the loop divides by \<open>len(pairs)\<close>.\<close>

definition alice_measure ::
  "'g random_module \<Rightarrow> E91Protocol \<Rightarrow> EntangledPair list \<Rightarrow> 'g \<Rightarrow>
   pyerror + (Measurement option list \<times> E91Protocol \<times> 'g)" where
  "alice_measure R self pairs g =
     (let st = alice_measure_loop R pairs ([], self, g)
      in if length pairs = 0 then Inl ZeroDivisionError else Inr st)"

fun e91_bob_measure_loop ::
  "'g random_module \<Rightarrow> EntangledPair list \<Rightarrow> Measurement option list \<times> E91Protocol \<times> 'g \<Rightarrow>
   Measurement option list \<times> E91Protocol \<times> 'g" where
  "e91_bob_measure_loop R [] st = st"
| "e91_bob_measure_loop R (pair # rest) (measurements, self, g) =
     (let (u, g1) = random_random R g
      in if u > bob_transmission self then
           e91_bob_measure_loop R rest (measurements @ [None], self, g1)
         else
           (let (basis_choice, g2) = random_choice R [45, 90, 135] g1;
                (res, g3) = calculate_measurement_result R pair basis_choice ''bob'' g2
            in case res of
                 Some r \<Rightarrow>
                   (let measurement = \<lparr>basis_angle = basis_choice, result = r,
                                        timestamp = pair_creation_time pair, detected = True\<rparr>
                    in e91_bob_measure_loop R rest
                         (measurements @ [Some measurement],
                          self\<lparr>e91_bob_measurements := e91_bob_measurements self @ [measurement]\<rparr>, g3))
               | None \<Rightarrow> e91_bob_measure_loop R rest (measurements @ [None], self, g3)))"

definition e91_bob_measure ::
  "'g random_module \<Rightarrow> E91Protocol \<Rightarrow> EntangledPair list \<Rightarrow> 'g \<Rightarrow>
   pyerror + (Measurement option list \<times> E91Protocol \<times> 'g)" where
  "e91_bob_measure R self pairs g =
     (let st = e91_bob_measure_loop R pairs ([], self, g)
      in if length pairs = 0 then Inl ZeroDivisionError else Inr st)"

fun coincidence_filtering_loop ::
  "E91Protocol \<Rightarrow> (Measurement option \<times> Measurement option) list \<Rightarrow>
   (Measurement \<times> Measurement) list \<Rightarrow> (Measurement \<times> Measurement) list" where
  "coincidence_filtering_loop self [] coincidences = coincidences"
| "coincidence_filtering_loop self ((Some alice_m, Some bob_m) # rest) coincidences =
     (let time_diff = \<bar>timestamp alice_m - timestamp bob_m\<bar>
      in if time_diff \<le> timing_window_ns (e91_params self) * (1 / 10 ^ 9)
         then coincidence_filtering_loop self rest (coincidences @ [(alice_m, bob_m)])
         else coincidence_filtering_loop self rest coincidences)"
| "coincidence_filtering_loop self (_ # rest) coincidences =
     coincidence_filtering_loop self rest coincidences"

definition coincidence_filtering ::
  "E91Protocol \<Rightarrow> Measurement option list \<Rightarrow> Measurement option list \<Rightarrow> (Measurement \<times> Measurement) list" where
  "coincidence_filtering self alice_ms bob_ms =
     coincidence_filtering_loop self (zip alice_ms bob_ms) []"

definition is_key_compatible :: "int \<Rightarrow> int \<Rightarrow> bool" where
  "is_key_compatible alice_angle bob_angle =
     (let compatible_pairs = [(0, 45), (45, 90), (90, 135), (45, 45), (90, 90)]
      in (alice_angle, bob_angle) \<in> set compatible_pairs)"

fun basis_selection_loop ::
  "nat list \<Rightarrow> nat \<Rightarrow> (Measurement \<times> Measurement) list \<Rightarrow>
   (Measurement \<times> Measurement) list \<times> (Measurement \<times> Measurement) list \<Rightarrow>
   (Measurement \<times> Measurement) list \<times> (Measurement \<times> Measurement) list" where
  "basis_selection_loop bell_test_indices i [] acc = acc"
| "basis_selection_loop bell_test_indices i (pair # rest) (bell_pairs, keyp) =
     (if i \<in> set bell_test_indices
      then basis_selection_loop bell_test_indices (Suc i) rest (bell_pairs @ [pair], keyp)
      else if is_key_compatible (basis_angle (fst pair)) (basis_angle (snd pair))
      then basis_selection_loop bell_test_indices (Suc i) rest (bell_pairs, keyp @ [pair])
      else basis_selection_loop bell_test_indices (Suc i) rest (bell_pairs, keyp))"

text \<open>
  \<open>basis_selection\<close>. \<open>random.sample\<close> raises \<open>ValueError\<close> when the sample size is
  negative or larger than the population.
\<close>

definition basis_selection ::
  "'g random_module \<Rightarrow> E91Protocol \<Rightarrow> (Measurement \<times> Measurement) list \<Rightarrow> 'g \<Rightarrow>
   pyerror + (((Measurement \<times> Measurement) list \<times> (Measurement \<times> Measurement) list) \<times> E91Protocol \<times> 'g)" where
  "basis_selection R self coincidences g =
     (let num_bell_test = py_int (real (length coincidences) * bell_test_fraction (e91_params self))
      in if num_bell_test < 0 \<or> int (length coincidences) < num_bell_test then Inl ValueError
         else
           (let (bell_test_indices, g1) = random_sample R (length coincidences) (nat num_bell_test) g;
                (bell_pairs, keyp) = basis_selection_loop bell_test_indices 0 coincidences ([], [])
            in Inr ((bell_pairs, keyp),
                    self\<lparr>bell_test_pairs := bell_pairs, key_pairs := keyp\<rparr>, g1)))"

text \<open>
  \<open>bell_test\<close>. The dictionary \<open>correlations\<close> maps an angle pair to the list of its
  correlation values, \<open>avg_correlations\<close> to their mean; \<open>get(key, 0)\<close> reads it.
\<close>

fun bell_correlations_loop ::
  "(Measurement \<times> Measurement) list \<Rightarrow> (int \<times> int \<rightharpoonup> int list) \<Rightarrow> (int \<times> int \<rightharpoonup> int list)" where
  "bell_correlations_loop [] correlations = correlations"
| "bell_correlations_loop ((alice_m, bob_m) # rest) correlations =
     (let key = (basis_angle alice_m, basis_angle bob_m);
          vals = (case correlations key of None \<Rightarrow> [] | Some vs \<Rightarrow> vs);
          correlation = (if result alice_m = result bob_m then 1 else - 1)
      in bell_correlations_loop rest (correlations(key \<mapsto> vals @ [correlation])))"

definition avg_correlations :: "(int \<times> int \<rightharpoonup> int list) \<Rightarrow> (int \<times> int \<rightharpoonup> real)" where
  "avg_correlations correlations key =
     (case correlations key of
        None \<Rightarrow> None
      | Some vals \<Rightarrow> Some (real_of_int (sum_list vals) / real (length vals)))"

definition dict_get :: "('k \<rightharpoonup> real) \<Rightarrow> 'k \<Rightarrow> real \<Rightarrow> real" where
  "dict_get d key dflt = (case d key of None \<Rightarrow> dflt | Some v \<Rightarrow> v)"

definition chsh_S :: "(Measurement \<times> Measurement) list \<Rightarrow> real" where
  "chsh_S bell_pairs =
     (let avg = avg_correlations (bell_correlations_loop bell_pairs Map.empty);
          E_00_45 = dict_get avg (0, 45) 0;
          E_00_135 = dict_get avg (0, 135) 0;
          E_45_45 = dict_get avg (45, 45) 0;
          E_45_135 = dict_get avg (45, 135) 0
      in \<bar>E_00_45 - E_00_135 + E_45_45 + E_45_135\<bar>)"

definition bell_test :: "E91Protocol \<Rightarrow> (Measurement \<times> Measurement) list \<Rightarrow> real \<times> E91Protocol" where
  "bell_test self bell_pairs =
     (if length bell_pairs < 4 then (0, self)
      else (let S = chsh_S bell_pairs in (S, self\<lparr>bell_parameter := S\<rparr>)))"

definition key_sifting :: "E91Protocol \<Rightarrow> (Measurement \<times> Measurement) list \<Rightarrow> int list \<times> E91Protocol" where
  "key_sifting self keyp =
     (let raw_key = map (\<lambda>(alice_m, bob_m). result alice_m) keyp
      in (raw_key, self\<lparr>e91_sifted_key := raw_key\<rparr>))"

definition expected_correlation :: "int \<Rightarrow> int \<Rightarrow> real" where
  "expected_correlation alice_angle bob_angle =
     (let angle_diff = \<bar>alice_angle - bob_angle\<bar>
      in cos (real_of_int angle_diff * (pi / 180)))"

fun e91_error_estimation_loop :: "(Measurement \<times> Measurement) list \<Rightarrow> nat \<times> nat \<Rightarrow> nat \<times> nat" where
  "e91_error_estimation_loop [] acc = acc"
| "e91_error_estimation_loop ((alice_m, bob_m) # rest) (errors, total_count) =
     (let errors' =
            (if expected_correlation (basis_angle alice_m) (basis_angle bob_m) > 0
             then (if result alice_m \<noteq> result bob_m then errors + 1 else errors)
             else (if result alice_m = result bob_m then errors + 1 else errors))
      in e91_error_estimation_loop rest (errors', total_count + 1))"

definition e91_error_estimation :: "(Measurement \<times> Measurement) list \<Rightarrow> real" where
  "e91_error_estimation keyp =
     (if keyp = [] then 1
      else (let (errors, total_count) = e91_error_estimation_loop keyp (0, 0)
            in if total_count > 0 then real errors / real total_count else 1))"

record E91_metrics =
  em_bell_parameter :: real
  em_qber :: real
  em_secure :: bool
  em_eavesdropper_detected :: bool
  em_raw_key_rate_bps :: real
  em_secure_key_rate_bps :: real

definition e91_security_analysis :: "E91Protocol \<Rightarrow> real \<Rightarrow> real \<Rightarrow> pyerror + E91_metrics" where
  "e91_security_analysis self bell_param qber =
     (let secure = (bell_param > bell_violation_threshold (e91_params self) \<and> qber < 0.11)
      in if e91_duration_seconds (e91_params self) = 0 then Inl ZeroDivisionError
         else
           (let raw = real (length (e91_sifted_key self)) / e91_duration_seconds (e91_params self);
                rate = (if secure then
                          (let secure_fraction =
                                 max 0 (1 - e91_error_correction_efficiency (e91_params self) * h2 qber
                                          - h2 qber)
                           in raw * secure_fraction)
                        else 0)
            in Inr \<lparr>em_bell_parameter = bell_param, em_qber = qber, em_secure = secure,
                    em_eavesdropper_detected = (bell_param < 2),
                    em_raw_key_rate_bps = raw, em_secure_key_rate_bps = rate\<rparr>))"

record E91_result =
  eres_error :: "run_error option"
  eres_success :: bool
  eres_final_key_bits :: "nat option"
  eres_metrics :: "E91_metrics option"
  eres_bell_parameter :: "real option"
  eres_efficiency :: "real option"

text \<open>Step 9 of \<open>E91Protocol.run_protocol\<close>: the two fixed factors of the source.\<close>

definition e91_corrected_length :: "'a list \<Rightarrow> int" where
  "e91_corrected_length raw_key = max 0 (py_int (real (length raw_key) * 0.8))"

definition e91_final_length :: "'a list \<Rightarrow> int" where
  "e91_final_length raw_key = max 0 (py_int (real_of_int (e91_corrected_length raw_key) * 0.7))"

definition e91_run_protocol ::
  "'g random_module \<Rightarrow> E91Protocol \<Rightarrow> 'g \<Rightarrow> pyerror + (E91_result \<times> E91Protocol \<times> 'g)" where
  "e91_run_protocol R self g =
     (let (pairs, g1) = generate_entangled_pairs R self g
      in case alice_measure R self pairs g1 of
           Inl e \<Rightarrow> Inl e
         | Inr (alice_ms, self1, g2) \<Rightarrow>
             (case e91_bob_measure R self1 pairs g2 of
                Inl e \<Rightarrow> Inl e
              | Inr (bob_ms, self2, g3) \<Rightarrow>
                  (let coincidences = coincidence_filtering self2 alice_ms bob_ms
                   in if length coincidences = 0 then
                        Inr (\<lparr>eres_error = Some No_coincident_detections, eres_success = False,
                              eres_final_key_bits = None, eres_metrics = None,
                              eres_bell_parameter = None, eres_efficiency = None\<rparr>, self2, g3)
                      else
                        (case basis_selection R self2 coincidences g3 of
                           Inl e \<Rightarrow> Inl e
                         | Inr ((bell_pairs, keyp), self3, g4) \<Rightarrow>
                             (let (bell_param, self4) = bell_test self3 bell_pairs;
                                  (raw_key, self5) = key_sifting self4 keyp
                              in if length raw_key = 0 then
                                   Inr (\<lparr>eres_error = Some No_key_material_generated,
                                         eres_success = False, eres_final_key_bits = None,
                                         eres_metrics = None, eres_bell_parameter = None,
                                         eres_efficiency = None\<rparr>, self5, g4)
                                 else
                                   (let qber = e91_error_estimation keyp
                                    in case e91_security_analysis self5 bell_param qber of
                                         Inl e \<Rightarrow> Inl e
                                       | Inr security_metrics \<Rightarrow>
                                           if em_secure security_metrics then
                                             (let final_length = e91_final_length raw_key;
                                                  self6 = self5\<lparr>e91_final_key := py_prefix raw_key final_length\<rparr>
                                              in Inr (\<lparr>eres_error = None, eres_success = True,
                                                       eres_final_key_bits = Some (length (e91_final_key self6)),
                                                       eres_metrics = Some security_metrics,
                                                       eres_bell_parameter = Some bell_param,
                                                       eres_efficiency =
                                                         Some (real (length (e91_final_key self6))
                                                                 / real (length pairs))\<rparr>, self6, g4))
                                           else
                                             Inr (\<lparr>eres_error = Some Security_conditions_not_met,
                                                   eres_success = False, eres_final_key_bits = None,
                                                   eres_metrics = Some security_metrics,
                                                   eres_bell_parameter = Some bell_param,
                                                   eres_efficiency = None\<rparr>, self5, g4)))))))"

section \<open>Concrete runs\<close>

text \<open>
  A generator that replays a recorded list of outcomes of the library calls, one entry per
  call, in the order the calls are made. It fixes the random choices of a run, so that the
  run can be evaluated.
\<close>

datatype outcome = Drawn_float real | Drawn_int int | Drawn_sample "nat list"

definition replay :: "outcome list random_module" where
  "replay =
     \<lparr>random_random = (\<lambda>g. case g of Drawn_float u # rest \<Rightarrow> (u, rest) | _ \<Rightarrow> (0, tl g)),
      random_randint = (\<lambda>a b g. case g of Drawn_int i # rest \<Rightarrow> (i, rest) | _ \<Rightarrow> (a, tl g)),
      random_choice = (\<lambda>xs g. case g of Drawn_int i # rest \<Rightarrow> (i, rest) | _ \<Rightarrow> (0, tl g)),
      random_sample = (\<lambda>n k g. case g of Drawn_sample js # rest \<Rightarrow> (js, rest) | _ \<Rightarrow> ([], tl g))\<rparr>"

text \<open>
  A BB84 link of length zero with the default parameters and two pulses, and two
  recordings: in the first the first photon arrives undisturbed and the second is lost; in
  the second the first photon is depolarised and Bob reads the wrong bit.
\<close>

definition demo_channel :: ChannelParameters where
  "demo_channel = default_ChannelParameters\<lparr>distance_km := 0\<rparr>"

definition demo_params :: BB84Parameters where
  "demo_params = default_BB84Parameters\<lparr>pulse_rate_hz := 2\<rparr>"


definition script_secure :: "outcome list" where
  "script_secure =
     [Drawn_float 0.3, Drawn_float 0.3, Drawn_float 0.9,
      Drawn_float 0.7, Drawn_float 0.6, Drawn_float 0.9,
      Drawn_float 0.3, Drawn_float 0.5, Drawn_float 0.9,
      Drawn_float 0.3, Drawn_float 0.6, Drawn_float 0.5]"

definition script_insecure :: "outcome list" where
  "script_insecure =
     [Drawn_float 0.3, Drawn_float 0.3, Drawn_float 0.9,
      Drawn_float 0.7, Drawn_float 0.6, Drawn_float 0.9,
      Drawn_float 0.3, Drawn_float 0.0005, Drawn_float 0.9,
      Drawn_float 0.3, Drawn_float 0.7, Drawn_float 0.6, Drawn_float 0.5]"



text \<open>A channel of length -10 km, and the object the constructor makes of it.\<close>

definition demo_invalid_channel :: ChannelParameters where
  "demo_invalid_channel = demo_channel\<lparr>loss_db_per_km := 1, distance_km := - 10\<rparr>"

definition demo_invalid_bb84 :: BB84Protocol where
  "demo_invalid_bb84 = projr (BB84Protocol_init demo_params demo_invalid_channel)"

text \<open>
  An E91 link of length zero with five pairs, all detected on both sides without detector
  noise. In \<open>demo_e91\<close> four of the five coincidences go to the Bell test, in
  \<open>demo_e91_few\<close> none does (the default fraction 0.1 of five is 0).
\<close>

definition demo_e91_params :: E91Parameters where
  "demo_e91_params = default_E91Parameters\<lparr>pair_generation_rate_hz := 5, bell_test_fraction := 0.8\<rparr>"

definition demo_e91_channel :: E91_ChannelParameters where
  "demo_e91_channel = default_E91_ChannelParameters\<lparr>alice_distance_km := 0, bob_distance_km := 0\<rparr>"

definition demo_e91 :: E91Protocol where
  "demo_e91 = projr (E91Protocol_init demo_e91_params demo_e91_channel)"


text \<open>The same link with a detection efficiency of 2, which is no probability.\<close>

definition demo_e91_invalid :: E91Protocol where
  "demo_e91_invalid =
     projr (E91Protocol_init (demo_e91_params\<lparr>detection_efficiency := 2\<rparr>) demo_e91_channel)"

definition script_e91_measurements :: "outcome list" where
  "script_e91_measurements =
     [Drawn_float 0.5, Drawn_float 0.5, Drawn_float 0.5, Drawn_float 0.5, Drawn_float 0.5,
      Drawn_float 0.5, Drawn_int 0, Drawn_float 0.5, Drawn_int 0,
      Drawn_float 0.5, Drawn_int 0, Drawn_float 0.5, Drawn_int 0,
      Drawn_float 0.5, Drawn_int 45, Drawn_float 0.5, Drawn_int 0, Drawn_float 0.5,
      Drawn_float 0.5, Drawn_int 45, Drawn_float 0.5, Drawn_int 1, Drawn_float 0.5,
      Drawn_float 0.5, Drawn_int 0, Drawn_float 0.5, Drawn_int 0,
      Drawn_float 0.5, Drawn_int 45, Drawn_float 0.5, Drawn_int 0, Drawn_float 0.5,
      Drawn_float 0.5, Drawn_int 135, Drawn_float 0.5, Drawn_int 0, Drawn_float 0.5,
      Drawn_float 0.5, Drawn_int 45, Drawn_float 0.5, Drawn_int 0, Drawn_float 0.5,
      Drawn_float 0.5, Drawn_int 135, Drawn_float 0.5, Drawn_int 0, Drawn_float 0.5,
      Drawn_float 0.5, Drawn_int 45, Drawn_float 0.5, Drawn_int 0, Drawn_float 0.5]"

definition script_e91 :: "outcome list" where
  "script_e91 = script_e91_measurements @ [Drawn_sample [0, 1, 2, 3]]"

definition script_e91_few :: "outcome list" where
  "script_e91_few = script_e91_measurements @ [Drawn_sample []]"

section \<open>Post-processing lengths in the words of the specification\<close>

text \<open>
  The two formulas of the specification, section 4.7, kept apart from the code so that
  the code can be compared with them.
\<close>

definition spec_corrected_len :: "real \<Rightarrow> nat \<Rightarrow> real \<Rightarrow> int" where
  "spec_corrected_len ecEfficiency sifted_len qber =
     (let leakedBits = \<lfloor>ecEfficiency * real sifted_len * qber * log 2 2\<rfloor>
      in max 0 (int sifted_len - leakedBits))"

definition spec_final_len :: "real \<Rightarrow> nat \<Rightarrow> real \<Rightarrow> int" where
  "spec_final_len paFactor corrected_len qber =
     (let eveInfo = min (int corrected_len) \<lfloor>real corrected_len * qber * paFactor\<rfloor>
      in max 0 (int corrected_len - eveInfo))"

section \<open>Auxiliary notions for the proofs\<close>



text \<open>
  The object with its three result attributes overwritten; a run does not read them
  before writing them.
\<close>

definition bb84_overwrite :: "Bit list \<Rightarrow> real \<Rightarrow> Bit list \<Rightarrow> BB84Protocol \<Rightarrow> BB84Protocol" where
  "bb84_overwrite a b c s = s\<lparr>sifted_key := a, error_rate := b, final_key := c\<rparr>"


section \<open>The channel model\<close>

lemma ten_powr_le_one: "x \<le> 0 \<Longrightarrow> (10::real) powr x \<le> 1"
  using powr_mono[of x 0 10] by simp


lemma float_max_ge_one: "1 \<le> float_max"
  by (simp add: float_max_def)

lemma pow10_returns: "10 powr x \<le> float_max \<Longrightarrow> pow10 x = Inr (10 powr x)"
  by (simp add: pow10_def)

lemma pow10_nonpos: "x \<le> 0 \<Longrightarrow> pow10 x = Inr (10 powr x)"
  using ten_powr_le_one[of x] float_max_ge_one by (simp add: pow10_def)

lemma pow10_zero: "pow10 0 = Inr 1"
  using pow10_nonpos[of 0] by simp


text \<open>
  Claim C4. For a loss coefficient and a distance that are not negative and a detector
  efficiency in [0,1], the transmission probability of either protocol is computed without
  an exception, is \<open>10 powr (- loss * distance / 10) * efficiency\<close>, lies in [0,1], and at
  distance 0 is the detector efficiency. The function reads its arguments only.
\<close>

theorem transmission_probability_contract:
  assumes "0 \<le> loss_db_per_km c" and "0 \<le> distance_km c"
    and "0 \<le> detector_efficiency c" and "detector_efficiency c \<le> 1"
    and "0 \<le> e91_loss_db_per_km ec" and "0 \<le> d"
    and "0 \<le> detection_efficiency ep" and "detection_efficiency ep \<le> 1"
  shows "calculate_transmission c
           = Inr (10 powr (- loss_db_per_km c * distance_km c / 10) * detector_efficiency c)
       \<and> 0 \<le> projr (calculate_transmission c) \<and> projr (calculate_transmission c) \<le> 1
       \<and> calculate_transmission (c\<lparr>distance_km := 0\<rparr>) = Inr (detector_efficiency c)
       \<and> e91_calculate_transmission ep ec d
           = Inr (10 powr (- e91_loss_db_per_km ec * d / 10) * detection_efficiency ep)
       \<and> 0 \<le> projr (e91_calculate_transmission ep ec d)
       \<and> projr (e91_calculate_transmission ep ec d) \<le> 1
       \<and> e91_calculate_transmission ep ec 0 = Inr (detection_efficiency ep)"
proof -
  have xb: "- loss_db_per_km c * distance_km c / 10 \<le> 0"
    using assms(1,2) by simp
  then have b: "10 powr (- loss_db_per_km c * distance_km c / 10) \<le> 1"
    by (rule ten_powr_le_one)
  have xe: "- e91_loss_db_per_km ec * d / 10 \<le> 0"
    using assms(5,6) by simp
  then have e: "10 powr (- e91_loss_db_per_km ec * d / 10) \<le> 1"
    by (rule ten_powr_le_one)
  have 5: "calculate_transmission c
           = Inr (10 powr (- loss_db_per_km c * distance_km c / 10) * detector_efficiency c)"
    using pow10_nonpos[OF xb] by (simp add: calculate_transmission_def)
  have 6: "e91_calculate_transmission ep ec d
           = Inr (10 powr (- e91_loss_db_per_km ec * d / 10) * detection_efficiency ep)"
    using pow10_nonpos[OF xe] by (simp add: e91_calculate_transmission_def)
  have 1: "0 \<le> projr (calculate_transmission c) \<and> projr (calculate_transmission c) \<le> 1"
    unfolding 5 using b assms(3,4) by (simp add: mult_le_one)
  have 2: "0 \<le> projr (e91_calculate_transmission ep ec d)
           \<and> projr (e91_calculate_transmission ep ec d) \<le> 1"
    unfolding 6 using e assms(7,8) by (simp add: mult_le_one)
  have 3: "calculate_transmission (c\<lparr>distance_km := 0\<rparr>) = Inr (detector_efficiency c)"
    by (simp add: calculate_transmission_def pow10_zero)
  have 4: "e91_calculate_transmission ep ec 0 = Inr (detection_efficiency ep)"
    by (simp add: e91_calculate_transmission_def pow10_zero)
  show ?thesis using 1 2 3 4 5 6 by blast
qed

theorem transmission_probability_contract_witness:
  "0 \<le> projr (calculate_transmission default_ChannelParameters)
   \<and> projr (calculate_transmission default_ChannelParameters) \<le> 1
   \<and> calculate_transmission (default_ChannelParameters\<lparr>distance_km := 0\<rparr>) = Inr 0.8
   \<and> 0 \<le> projr (e91_calculate_transmission default_E91Parameters default_E91_ChannelParameters 25)
   \<and> projr (e91_calculate_transmission default_E91Parameters default_E91_ChannelParameters 25) \<le> 1
   \<and> e91_calculate_transmission default_E91Parameters default_E91_ChannelParameters 0 = Inr 0.8"
proof -
  have h: "0 \<le> loss_db_per_km default_ChannelParameters"
    "0 \<le> distance_km default_ChannelParameters"
    "0 \<le> detector_efficiency default_ChannelParameters"
    "detector_efficiency default_ChannelParameters \<le> 1"
    "0 \<le> e91_loss_db_per_km default_E91_ChannelParameters" "(0::real) \<le> 25"
    "0 \<le> detection_efficiency default_E91Parameters"
    "detection_efficiency default_E91Parameters \<le> 1"
    by (simp_all add: default_ChannelParameters_def default_E91_ChannelParameters_def
        default_E91Parameters_def)
  have v: "detector_efficiency default_ChannelParameters = 0.8"
    "detection_efficiency default_E91Parameters = 0.8"
    by (simp_all add: default_ChannelParameters_def default_E91Parameters_def)
  show ?thesis
    using transmission_probability_contract[OF h] unfolding v by blast
qed




section \<open>Python helpers\<close>

lemma py_prefix_nonneg: "0 \<le> k \<Longrightarrow> py_prefix xs k = take (nat k) xs"
  by (simp add: py_prefix_def)

lemma length_py_prefix: "length (py_prefix xs k) \<le> length xs"
  by (auto simp: py_prefix_def)

lemma py_int_nonneg: "0 \<le> x \<Longrightarrow> py_int x = \<lfloor>x\<rfloor>"
  by (simp add: py_int_def)

section \<open>BB84: what each step changes\<close>

lemma alice_prepare_step_proj:
  "length (fst (alice_prepare_step R st)) = Suc (length (fst st))"
  "length (alice_bits (fst (snd (alice_prepare_step R st)))) = Suc (length (alice_bits (fst (snd st))))"
  "length (alice_bases (fst (snd (alice_prepare_step R st)))) = Suc (length (alice_bases (fst (snd st))))"
  "length (alice_intensities (fst (snd (alice_prepare_step R st)))) = Suc (length (alice_intensities (fst (snd st))))"
  "bob_measurements (fst (snd (alice_prepare_step R st))) = bob_measurements (fst (snd st))"
  "params (fst (snd (alice_prepare_step R st))) = params (fst (snd st))"
  "channel (fst (snd (alice_prepare_step R st))) = channel (fst (snd st))"
  "transmission_prob (fst (snd (alice_prepare_step R st))) = transmission_prob (fst (snd st))"
  "sifted_key (fst (snd (alice_prepare_step R st))) = sifted_key (fst (snd st))"
  "error_rate (fst (snd (alice_prepare_step R st))) = error_rate (fst (snd st))"
  "final_key (fst (snd (alice_prepare_step R st))) = final_key (fst (snd st))"
  by (simp_all add: alice_prepare_step_def Let_def case_prod_beta)

lemma alice_prepare_loop_proj:
  "length (fst (alice_prepare_loop R n st)) = length (fst st) + n
   \<and> length (alice_bits (fst (snd (alice_prepare_loop R n st)))) = length (alice_bits (fst (snd st))) + n
   \<and> length (alice_bases (fst (snd (alice_prepare_loop R n st)))) = length (alice_bases (fst (snd st))) + n
   \<and> length (alice_intensities (fst (snd (alice_prepare_loop R n st)))) = length (alice_intensities (fst (snd st))) + n
   \<and> bob_measurements (fst (snd (alice_prepare_loop R n st))) = bob_measurements (fst (snd st))
   \<and> params (fst (snd (alice_prepare_loop R n st))) = params (fst (snd st))
   \<and> channel (fst (snd (alice_prepare_loop R n st))) = channel (fst (snd st))
   \<and> transmission_prob (fst (snd (alice_prepare_loop R n st))) = transmission_prob (fst (snd st))
   \<and> sifted_key (fst (snd (alice_prepare_loop R n st))) = sifted_key (fst (snd st))
   \<and> error_rate (fst (snd (alice_prepare_loop R n st))) = error_rate (fst (snd st))
   \<and> final_key (fst (snd (alice_prepare_loop R n st))) = final_key (fst (snd st))"
  by (induction n arbitrary: st) (simp_all add: alice_prepare_step_proj)

lemma alice_prepare_facts:
  assumes "alice_prepare R s g = (photons, s1, g1)"
  shows "length photons = nat (py_int (pulse_rate_hz (params s) * duration_seconds (params s)))"
    and "length (alice_bases s1) = length (alice_bases s) + length photons"
    and "bob_measurements s1 = bob_measurements s"
    and "params s1 = params s" and "channel s1 = channel s"
    and "transmission_prob s1 = transmission_prob s"
    and "sifted_key s1 = sifted_key s" and "error_rate s1 = error_rate s"
    and "final_key s1 = final_key s"
  using assms
    alice_prepare_loop_proj[of R "nat (py_int (pulse_rate_hz (params s) * duration_seconds (params s)))" "([], s, g)"]
  by (simp_all add: alice_prepare_def Let_def)

lemma quantum_channel_loop_length:
  "length (fst (quantum_channel_loop R s photons (acc, g))) = length acc + length photons"
  by (induction photons arbitrary: acc g) (auto simp: Let_def case_prod_beta)

lemma quantum_channel_length:
  "quantum_channel R s photons g = Inr (received, g') \<Longrightarrow> length received = length photons \<and> photons \<noteq> []"
  using quantum_channel_loop_length[of R s photons "[]" g]
  by (auto simp: quantum_channel_def Let_def split: if_splits)

lemma bob_measure_loop_proj:
  "length (bob_measurements (fst (snd (bob_measure_loop R n i photons (dets, s, g)))))
      = length (bob_measurements s) + length photons
   \<and> alice_bits (fst (snd (bob_measure_loop R n i photons (dets, s, g)))) = alice_bits s
   \<and> alice_bases (fst (snd (bob_measure_loop R n i photons (dets, s, g)))) = alice_bases s
   \<and> alice_intensities (fst (snd (bob_measure_loop R n i photons (dets, s, g)))) = alice_intensities s
   \<and> params (fst (snd (bob_measure_loop R n i photons (dets, s, g)))) = params s
   \<and> channel (fst (snd (bob_measure_loop R n i photons (dets, s, g)))) = channel s
   \<and> transmission_prob (fst (snd (bob_measure_loop R n i photons (dets, s, g)))) = transmission_prob s
   \<and> sifted_key (fst (snd (bob_measure_loop R n i photons (dets, s, g)))) = sifted_key s
   \<and> error_rate (fst (snd (bob_measure_loop R n i photons (dets, s, g)))) = error_rate s
   \<and> final_key (fst (snd (bob_measure_loop R n i photons (dets, s, g)))) = final_key s"
  by (induction photons arbitrary: i dets s g) (simp_all add: Let_def case_prod_beta)

lemma bob_measure_facts:
  assumes "bob_measure R s photons g = (dets, s2, g')"
  shows "length (bob_measurements s2) = length (bob_measurements s) + length photons"
    and "alice_bases s2 = alice_bases s" and "params s2 = params s"
    and "sifted_key s2 = sifted_key s" and "final_key s2 = final_key s"
  using assms bob_measure_loop_proj[of R "length photons" 0 photons "[]" s g]
  by (simp_all add: bob_measure_def)

lemma basis_reconciliation_loop_length:
  "basis_reconciliation_loop s i zs (a, b) = Inr (a', b') \<Longrightarrow> length a = length b \<Longrightarrow>
   length a' \<le> length a + length zs \<and> length b' = length a'"
proof (induction zs arbitrary: i a b)
  case Nil
  then show ?case by simp
next
  case (Cons z zs)
  obtain ab d where z: "z = (ab, d)" by (cases z)
  have ih: "\<And>i a b. basis_reconciliation_loop s i zs (a, b) = Inr (a', b') \<Longrightarrow> length a = length b \<Longrightarrow>
     length a' \<le> length a + length zs \<and> length b' = length a'"
    by (rule Cons.IH)
  show ?case
  proof (cases "det_detected d \<and> ab = det_basis d
         \<and> \<not> (i < length (alice_intensities s) \<and> alice_intensities s ! i < 1)")
    case True
    then have l: "basis_reconciliation_loop s (Suc i) zs (a @ [alice_bits s ! i], b @ [det_bit d]) = Inr (a', b')"
      using Cons.prems(1) by (simp add: z split: if_splits)
    show ?thesis using ih[OF l] Cons.prems(2) by simp
  next
    case False
    then have l: "basis_reconciliation_loop s (Suc i) zs (a, b) = Inr (a', b')"
      using Cons.prems(1) by (auto simp: z)
    show ?thesis using ih[OF l] Cons.prems(2) by simp
  qed
qed

lemma basis_reconciliation_facts:
  assumes "basis_reconciliation s = Inr ((a, b), s3)"
  shows "s3 = s\<lparr>sifted_key := a\<rparr>" and "length a \<le> length (alice_bases s)"
    and "length a \<le> length (bob_measurements s)" and "length b = length a"
proof -
  from assms have l: "basis_reconciliation_loop s 0 (zip (alice_bases s) (bob_measurements s)) ([], [])
      = Inr (a, b)" and s3: "s3 = s\<lparr>sifted_key := a\<rparr>"
    by (auto simp: basis_reconciliation_def split: sum.splits)
  from basis_reconciliation_loop_length[OF l]
  have "length a \<le> length (zip (alice_bases s) (bob_measurements s)) \<and> length b = length a"
    by simp
  then show "length a \<le> length (alice_bases s)" and "length a \<le> length (bob_measurements s)"
    and "length b = length a" by simp_all
  show "s3 = s\<lparr>sifted_key := a\<rparr>" by (rule s3)
qed

lemma error_estimation_facts:
  assumes "length b = length a" and "a \<noteq> []" and "error_estimation s a b = (qber, s4)"
  shows "s4 = s\<lparr>error_rate := qber\<rparr>"
    and "qber = real (length (filter (\<lambda>(x, y). Some x \<noteq> y) (zip a b))) / real (length a)"
  using assms by (auto simp: error_estimation_def Let_def)

lemma error_correction_length:
  "length (fst (error_correction s a b)) \<le> length a"
  by (simp add: error_correction_def Let_def py_prefix_nonneg)

lemma privacy_amplification_facts:
  assumes "privacy_amplification s key = (k, s5)"
  shows "length k \<le> length key" and "s5 = s \<or> s5 = s\<lparr>final_key := k\<rparr>"
  using assms by (auto simp: privacy_amplification_def Let_def py_prefix_nonneg split: if_splits)


lemma run_protocol_unfold:
  assumes "alice_prepare R self g = (photons, self1, g1)"
    and "quantum_channel R self1 photons g1 = Inr (received, g2)"
    and "bob_measure R self1 received g2 = (dets, self2, g3)"
    and "basis_reconciliation self2 = Inr ((a, b), self3)"
    and "error_estimation self3 a b = (qber, self4)"
    and "privacy_amplification self4 (fst (error_correction self4 a b)) = (fk, self5)"
  shows "run_protocol R self g =
     (if length a = 0 then
         Inr (\<lparr>res_error = Some No_sifted_key_generated, res_success = False,
               res_final_key_bits = None, res_metrics = None,
               res_key_rate_bps = None, res_efficiency = None\<rparr>, self3, g3)
      else case security_analysis self4 of
             Inl e \<Rightarrow> Inl e
           | Inr security_metrics \<Rightarrow>
               if \<not> m_secure security_metrics then
                 Inr (\<lparr>res_error = Some (QBER_exceeds_threshold qber (qber_threshold (params self4))),
                       res_success = False, res_final_key_bits = None,
                       res_metrics = Some security_metrics,
                       res_key_rate_bps = None, res_efficiency = None\<rparr>, self4, g3)
               else
                 Inr (\<lparr>res_error = None, res_success = True,
                       res_final_key_bits = Some (length fk),
                       res_metrics = Some security_metrics,
                       res_key_rate_bps = Some (m_secure_key_rate_bps security_metrics),
                       res_efficiency = Some (real (length fk) / real (length photons))\<rparr>,
                      self5, g3))"
  using assms by (simp add: run_protocol_def Let_def case_prod_beta split: sum.splits)

lemma run_protocol_parts:
  assumes run: "run_protocol R self g = Inr (res, self', g')"
  obtains photons self1 g1 received g2 dets self2 g3 a b self3 qber self4 fk self5 where
    "alice_prepare R self g = (photons, self1, g1)"
    "quantum_channel R self1 photons g1 = Inr (received, g2)"
    "bob_measure R self1 received g2 = (dets, self2, g3)"
    "basis_reconciliation self2 = Inr ((a, b), self3)"
    "error_estimation self3 a b = (qber, self4)"
    "privacy_amplification self4 (fst (error_correction self4 a b)) = (fk, self5)"
proof -
  obtain photons self1 g1 where ap: "alice_prepare R self g = (photons, self1, g1)"
    by (cases "alice_prepare R self g") auto
  obtain received g2 where qc: "quantum_channel R self1 photons g1 = Inr (received, g2)"
    using run ap by (cases "quantum_channel R self1 photons g1") (auto simp: run_protocol_def)
  obtain dets self2 g3 where bm: "bob_measure R self1 received g2 = (dets, self2, g3)"
    by (cases "bob_measure R self1 received g2") auto
  obtain ab self3 where br0: "basis_reconciliation self2 = Inr (ab, self3)"
    using run ap qc bm by (cases "basis_reconciliation self2") (auto simp: run_protocol_def)
  obtain a b where ab: "ab = (a, b)" by (cases ab) auto
  obtain qber self4 where ee: "error_estimation self3 a b = (qber, self4)"
    by (cases "error_estimation self3 a b") auto
  obtain fk self5 where pa: "privacy_amplification self4 (fst (error_correction self4 a b)) = (fk, self5)"
    by (cases "privacy_amplification self4 (fst (error_correction self4 a b))") auto
  show thesis using that[OF ap qc bm br0[unfolded ab] ee pa] .
qed


lemma bb84_run_lengths:
  assumes run: "run_protocol R self g = Inr (res, self', g')"
  shows "length (sifted_key self') \<le> length (alice_bases self')
       \<and> length (alice_bases self') = length (alice_bases self)
             + nat (py_int (pulse_rate_hz (params self) * duration_seconds (params self)))
       \<and> (res_final_key_bits res = Some n \<longrightarrow> n \<le> length (sifted_key self'))"
proof -
  from run obtain photons self1 g1 received g2 dets self2 g3 a b self3 qber self4 fk self5 where
    ap: "alice_prepare R self g = (photons, self1, g1)" and
    qc: "quantum_channel R self1 photons g1 = Inr (received, g2)" and
    bm: "bob_measure R self1 received g2 = (dets, self2, g3)" and
    br: "basis_reconciliation self2 = Inr ((a, b), self3)" and
    ee: "error_estimation self3 a b = (qber, self4)" and
    pa: "privacy_amplification self4 (fst (error_correction self4 a b)) = (fk, self5)"
    by (rule run_protocol_parts)
  note unf = run_protocol_unfold[OF ap qc bm br ee pa]
  have s3: "self3 = self2\<lparr>sifted_key := a\<rparr>" by (rule basis_reconciliation_facts(1)[OF br])
  have lb: "length b = length a" by (rule basis_reconciliation_facts(4)[OF br])
  have la: "length a \<le> length (alice_bases self2)" by (rule basis_reconciliation_facts(2)[OF br])
  have b2: "alice_bases self2 = alice_bases self1" by (rule bob_measure_facts(2)[OF bm])
  have b1: "length (alice_bases self1) = length (alice_bases self)
     + nat (py_int (pulse_rate_hz (params self) * duration_seconds (params self)))"
    using alice_prepare_facts(1,2)[OF ap] by simp
  have lfk: "length fk \<le> length a"
    using privacy_amplification_facts(1)[OF pa] error_correction_length[of self4 a b] by simp
  show ?thesis
  proof (cases "a = []")
    case True
    then have "self' = self3" "res_final_key_bits res = None" using run unf by auto
    then show ?thesis using s3 la b2 b1 by simp
  next
    case False
    have s4: "self4 = self3\<lparr>error_rate := qber\<rparr>"
      by (rule error_estimation_facts(1)[OF lb False ee])
    have k4: "sifted_key self4 = a" "alice_bases self4 = alice_bases self2"
      using s4 s3 by simp_all
    have k5: "sifted_key self5 = a" "alice_bases self5 = alice_bases self2"
      using privacy_amplification_facts(2)[OF pa] s4 s3 by auto
    obtain sm where sa: "security_analysis self4 = Inr sm"
      using run unf False by (cases "security_analysis self4") auto
    show ?thesis
    proof (cases "m_secure sm")
      case True
      then have "self' = self5" "res_final_key_bits res = Some (length fk)"
        using run unf False sa by auto
      then show ?thesis using k5 la b2 b1 lfk by simp
    next
      case nsec: False
      then have "self' = self4" "res_final_key_bits res = None"
        using run unf False sa by auto
      then show ?thesis using k4 la b2 b1 by simp
    qed
  qed
qed

section \<open>E91: what each step changes\<close>














lemma e91_lengths:
  "0 \<le> e91_corrected_length raw" "e91_corrected_length raw \<le> int (length raw)"
  "0 \<le> e91_final_length raw" "e91_final_length raw \<le> e91_corrected_length raw"
  "e91_corrected_length raw = \<lfloor>real (length raw) * 0.8\<rfloor>"
  "e91_final_length raw = \<lfloor>real_of_int \<lfloor>real (length raw) * 0.8\<rfloor> * 0.7\<rfloor>"
proof -
  have a: "(0::real) \<le> real (length raw) * 0.8" by simp
  then have c: "e91_corrected_length raw = \<lfloor>real (length raw) * 0.8\<rfloor>"
    by (simp add: e91_corrected_length_def py_int_def)
  have c0: "0 \<le> \<lfloor>real (length raw) * 0.8\<rfloor>" using a by simp
  have "real (length raw) * 0.8 \<le> real (length raw)" by simp
  then have c1: "\<lfloor>real (length raw) * 0.8\<rfloor> \<le> int (length raw)"
    by (metis floor_mono floor_of_nat)
  have b: "(0::real) \<le> real_of_int \<lfloor>real (length raw) * 0.8\<rfloor> * 0.7" using c0 by simp
  then have f: "e91_final_length raw = \<lfloor>real_of_int \<lfloor>real (length raw) * 0.8\<rfloor> * 0.7\<rfloor>"
    by (simp add: e91_final_length_def py_int_def c)
  have "real_of_int \<lfloor>real (length raw) * 0.8\<rfloor> * 0.7 \<le> real_of_int \<lfloor>real (length raw) * 0.8\<rfloor>"
    using c0 by simp
  then have f1: "\<lfloor>real_of_int \<lfloor>real (length raw) * 0.8\<rfloor> * 0.7\<rfloor> \<le> \<lfloor>real (length raw) * 0.8\<rfloor>"
    by (metis floor_mono floor_of_int)
  show "0 \<le> e91_corrected_length raw" "e91_corrected_length raw \<le> int (length raw)"
  "0 \<le> e91_final_length raw" "e91_final_length raw \<le> e91_corrected_length raw"
  "e91_corrected_length raw = \<lfloor>real (length raw) * 0.8\<rfloor>"
  "e91_final_length raw = \<lfloor>real_of_int \<lfloor>real (length raw) * 0.8\<rfloor> * 0.7\<rfloor>"
    using c c0 c1 f f1 b by simp_all
qed





section \<open>The Bell test and the error rate\<close>

lemma cos_45_pos: "0 < cos (45 * (pi / 180))"
  by (intro cos_gt_zero_pi) (simp_all add: field_simps)

lemma expected_correlation_compat:
  "is_key_compatible x y \<Longrightarrow> 0 < expected_correlation x y"
  using cos_45_pos by (auto simp: is_key_compatible_def expected_correlation_def Let_def)

lemma sum_list_pm1_bound:
  fixes vals :: "int list"
  shows "\<forall>v\<in>set vals. v = 1 \<or> v = - 1 \<Longrightarrow> \<bar>sum_list vals\<bar> \<le> int (length vals)"
  by (induction vals) auto

lemma bell_correlations_loop_inv:
  "(\<forall>k vals. m k = Some vals \<longrightarrow> vals \<noteq> [] \<and> (\<forall>v\<in>set vals. v = 1 \<or> v = - 1)) \<Longrightarrow>
   (\<forall>k vals. bell_correlations_loop pairs m k = Some vals \<longrightarrow> vals \<noteq> [] \<and> (\<forall>v\<in>set vals. v = 1 \<or> v = - 1))"
proof (induction pairs arbitrary: m)
  case Nil
  then show ?case by simp
next
  case (Cons p pairs)
  obtain a b where p: "p = (a, b)" by (cases p)
  let ?key = "(basis_angle a, basis_angle b)"
  let ?m' = "m(?key \<mapsto> (case m ?key of None \<Rightarrow> [] | Some vs \<Rightarrow> vs) @ [if result a = result b then 1 else - 1])"
  have inv': "\<forall>k vals. ?m' k = Some vals \<longrightarrow> vals \<noteq> [] \<and> (\<forall>v\<in>set vals. v = 1 \<or> v = - 1)"
  proof (intro allI impI)
    fix k vals
    assume h: "?m' k = Some vals"
    show "vals \<noteq> [] \<and> (\<forall>v\<in>set vals. v = 1 \<or> v = - 1)"
    proof (cases "k = ?key")
      case False
      then have "m k = Some vals" using h by simp
      then show ?thesis using Cons.prems by blast
    next
      case True
      show ?thesis
      proof (cases "m ?key")
        case None
        then have "vals = [if result a = result b then 1 else - 1]" using h True by simp
        then show ?thesis by simp
      next
        case (Some vs)
        then have v: "vals = vs @ [if result a = result b then 1 else - 1]" using h True by simp
        have "\<forall>v\<in>set vs. v = 1 \<or> v = - 1" using Cons.prems Some by blast
        then show ?thesis using v by auto
      qed
    qed
  qed
  have eq: "bell_correlations_loop (p # pairs) m = bell_correlations_loop pairs ?m'"
    by (simp add: p Let_def)
  show ?case unfolding eq by (rule Cons.IH[OF inv'])
qed

lemma avg_correlations_bound:
  assumes "\<forall>k vals. m k = Some vals \<longrightarrow> vals \<noteq> [] \<and> (\<forall>v\<in>set vals. v = 1 \<or> v = - 1)"
  shows "\<bar>dict_get (avg_correlations m) k 0\<bar> \<le> 1"
proof (cases "m k")
  case None
  then show ?thesis by (simp add: dict_get_def avg_correlations_def)
next
  case (Some vals)
  then have "vals \<noteq> [] \<and> (\<forall>v\<in>set vals. v = 1 \<or> v = - 1)"
    using assms by blast
  then have ne: "vals \<noteq> []" and b: "\<bar>sum_list vals\<bar> \<le> int (length vals)"
    using sum_list_pm1_bound[of vals] by simp_all
  have "\<bar>real_of_int (sum_list vals)\<bar> \<le> real (length vals)"
    using b by linarith
  then have "\<bar>real_of_int (sum_list vals) / real (length vals)\<bar> \<le> 1"
    using ne by (simp add: field_simps)
  then show ?thesis using Some by (simp add: dict_get_def avg_correlations_def)
qed

lemma chsh_S_bounds: "0 \<le> chsh_S bp \<and> chsh_S bp \<le> 4"
proof -
  let ?m = "bell_correlations_loop bp Map.empty"
  have inv: "\<forall>k vals. ?m k = Some vals \<longrightarrow> vals \<noteq> [] \<and> (\<forall>v\<in>set vals. v = 1 \<or> v = - 1)"
    by (rule bell_correlations_loop_inv) simp
  note b = avg_correlations_bound[OF inv]
  show ?thesis
    using b[of "(0, 45)"] b[of "(0, 135)"] b[of "(45, 45)"] b[of "(45, 135)"]
    by (simp add: chsh_S_def Let_def)
qed

lemma bell_test_bounds: "0 \<le> fst (bell_test s bp) \<and> fst (bell_test s bp) \<le> 4"
  using chsh_S_bounds[of bp] by (simp add: bell_test_def Let_def)

lemma error_estimation_range:
  "0 \<le> fst (error_estimation s a b) \<and> fst (error_estimation s a b) \<le> 1"
proof -
  have "length (filter (\<lambda>(x, y). Some x \<noteq> y) (zip a b)) \<le> length (zip a b)"
    by (rule length_filter_le)
  then have "length a = length b \<Longrightarrow> real (length (filter (\<lambda>(x, y). Some x \<noteq> y) (zip a b))) \<le> real (length a)"
    by simp
  then show ?thesis
    by (auto simp: error_estimation_def Let_def divide_le_eq_1)
qed

lemma error_estimation_count:
  assumes "length a = length b" and "a \<noteq> []"
  shows "fst (error_estimation s a b)
       = real (card {i. i < length a \<and> Some (a ! i) \<noteq> b ! i}) / real (length a)"
proof -
  have "{i. i < length (zip a b) \<and> (case zip a b ! i of (x, y) \<Rightarrow> Some x \<noteq> y)}
      = {i. i < length a \<and> Some (a ! i) \<noteq> b ! i}"
    using assms(1) by auto
  then have "length (filter (\<lambda>(x, y). Some x \<noteq> y) (zip a b)) = card {i. i < length a \<and> Some (a ! i) \<noteq> b ! i}"
    by (simp add: length_filter_conv_card)
  then show ?thesis using assms by (auto simp: error_estimation_def Let_def)
qed

lemma error_estimation_self:
  assumes "a \<noteq> []"
  shows "fst (error_estimation s a (map Some a)) = 0"
proof -
  have "filter (\<lambda>(x, y). Some x \<noteq> y) (zip a (map Some a)) = []"
    by (auto simp: filter_empty_conv in_set_zip)
  then show ?thesis using assms by (simp add: error_estimation_def Let_def)
qed

lemma e91_error_estimation_loop_range:
  "fst (e91_error_estimation_loop keyp (e, t)) \<le> e + length keyp
   \<and> snd (e91_error_estimation_loop keyp (e, t)) = t + length keyp"
proof (induction keyp arbitrary: e t)
  case Nil
  show ?case by simp
next
  case (Cons p keyp)
  obtain a b where p: "p = (a, b)" by (cases p)
  show ?case using Cons.IH[of "e + 1" "t + 1"] Cons.IH[of e "t + 1"]
    by (auto simp: p Let_def)
qed

lemma e91_error_estimation_range:
  "0 \<le> e91_error_estimation keyp \<and> e91_error_estimation keyp \<le> 1"
  using e91_error_estimation_loop_range[of keyp 0 0]
  by (auto simp: e91_error_estimation_def Let_def case_prod_beta divide_le_eq_1)

lemma e91_error_estimation_loop_compat:
  "\<forall>(a, b)\<in>set keyp. is_key_compatible (basis_angle a) (basis_angle b) \<Longrightarrow>
   e91_error_estimation_loop keyp (e, t)
     = (e + length (filter (\<lambda>(a, b). result a \<noteq> result b) keyp), t + length keyp)"
proof (induction keyp arbitrary: e t)
  case Nil
  show ?case by simp
next
  case (Cons p keyp)
  obtain a b where p: "p = (a, b)" by (cases p)
  have pos: "0 < expected_correlation (basis_angle a) (basis_angle b)"
    using Cons.prems by (auto simp: p intro: expected_correlation_compat)
  have rest: "\<forall>(a, b)\<in>set keyp. is_key_compatible (basis_angle a) (basis_angle b)"
    using Cons.prems by simp
  show ?case using Cons.IH[OF rest] pos by (simp add: p Let_def)
qed

lemma e91_error_estimation_count:
  assumes "\<forall>(a, b)\<in>set keyp. is_key_compatible (basis_angle a) (basis_angle b)" and "keyp \<noteq> []"
  shows "e91_error_estimation keyp
       = real (card {i. i < length keyp \<and> result (fst (keyp ! i)) \<noteq> result (snd (keyp ! i))})
           / real (length keyp)"
proof -
  have "length (filter (\<lambda>(a, b). result a \<noteq> result b) keyp)
      = card {i. i < length keyp \<and> result (fst (keyp ! i)) \<noteq> result (snd (keyp ! i))}"
    by (simp add: length_filter_conv_card case_prod_beta)
  then show ?thesis
    using assms by (simp add: e91_error_estimation_def e91_error_estimation_loop_compat)
qed

lemma e91_error_estimation_agree:
  assumes "\<forall>(a, b)\<in>set keyp. is_key_compatible (basis_angle a) (basis_angle b)" and "keyp \<noteq> []"
    and "\<forall>(a, b)\<in>set keyp. result a = result b"
  shows "e91_error_estimation keyp = 0"
proof -
  have "filter (\<lambda>(a, b). result a \<noteq> result b) keyp = []"
    using assms(3) by (auto simp: filter_empty_conv)
  then show ?thesis
    using assms(1,2) by (simp add: e91_error_estimation_def e91_error_estimation_loop_compat)
qed

lemma error_correction_spec:
  assumes "length a = length b" and "0 \<le> error_correction_efficiency (params s)"
    and "0 \<le> error_rate s"
  shows "error_correction s a b
       = (take (nat (spec_corrected_len (error_correction_efficiency (params s)) (length a) (error_rate s))) a,
          take (nat (spec_corrected_len (error_correction_efficiency (params s)) (length a) (error_rate s))) b)"
proof -
  have "0 \<le> error_correction_efficiency (params s) * real (length a) * error_rate s"
    using assms(2,3) by simp
  then have "py_int (error_correction_efficiency (params s) * real (length a) * error_rate s * log 2 2)
      = \<lfloor>error_correction_efficiency (params s) * real (length a) * error_rate s * log 2 2\<rfloor>"
    by (simp add: py_int_def)
  then show ?thesis
    using assms(1) by (simp add: error_correction_def spec_corrected_len_def Let_def py_prefix_nonneg)
qed

lemma privacy_amplification_spec:
  assumes "0 \<le> error_rate s" and "0 \<le> privacy_amplification_factor (params s)"
  shows "fst (privacy_amplification s key)
       = take (nat (spec_final_len (privacy_amplification_factor (params s)) (length key) (error_rate s))) key"
proof -
  have "0 \<le> real (length key) * error_rate s * privacy_amplification_factor (params s)"
    using assms by simp
  then have "py_int (real (length key) * error_rate s * privacy_amplification_factor (params s))
      = \<lfloor>real (length key) * error_rate s * privacy_amplification_factor (params s)\<rfloor>"
    by (simp add: py_int_def)
  then show ?thesis
    by (simp add: privacy_amplification_def spec_final_len_def Let_def py_prefix_nonneg)
qed

section \<open>What a run reads of the object it starts from\<close>

lemma bb84_overwrite_reads [simp]:
  "params (bb84_overwrite a b c s) = params s"
  "channel (bb84_overwrite a b c s) = channel s"
  "transmission_prob (bb84_overwrite a b c s) = transmission_prob s"
  "alice_bits (bb84_overwrite a b c s) = alice_bits s"
  "alice_bases (bb84_overwrite a b c s) = alice_bases s"
  "alice_intensities (bb84_overwrite a b c s) = alice_intensities s"
  "bob_measurements (bb84_overwrite a b c s) = bob_measurements s"
  "sifted_key (bb84_overwrite a b c s) = a"
  "error_rate (bb84_overwrite a b c s) = b"
  "final_key (bb84_overwrite a b c s) = c"
  by (simp_all add: bb84_overwrite_def)

lemma bb84_overwrite_bob [simp]:
  "(bb84_overwrite a b c s)\<lparr>bob_measurements := x\<rparr> = bb84_overwrite a b c (s\<lparr>bob_measurements := x\<rparr>)"
  by (simp add: bb84_overwrite_def)





























section \<open>The concrete runs, evaluated\<close>

lemma pow10_one: "pow10 1 = Inr 10"
  using pow10_returns[of 1] float_max_ge_one by (simp add: float_max_def)


lemma demo_invalid_bb84_eq:
  "demo_invalid_bb84 =
     \<lparr>params = demo_params, channel = demo_invalid_channel, alice_bits = [], alice_bases = [],
      alice_intensities = [], bob_measurements = [], sifted_key = [], error_rate = 0,
      final_key = [], transmission_prob = 8\<rparr>"
  by (simp add: demo_invalid_bb84_def BB84Protocol_init_def calculate_transmission_def
      demo_invalid_channel_def demo_channel_def default_ChannelParameters_def pow10_one)

lemma demo_e91_eq:
  "demo_e91 = \<lparr>e91_params = demo_e91_params, e91_channel = demo_e91_channel,
      alice_measurements = [], e91_bob_measurements = [], bell_test_pairs = [], key_pairs = [],
      bell_parameter = 0, e91_sifted_key = [], e91_final_key = [],
      alice_transmission = 4 / 5, bob_transmission = 4 / 5\<rparr>"
  by (simp add: demo_e91_def E91Protocol_init_def e91_calculate_transmission_def
      demo_e91_channel_def demo_e91_params_def default_E91_ChannelParameters_def
      default_E91Parameters_def pow10_zero)


lemma demo_e91_invalid_eq:
  "demo_e91_invalid = \<lparr>e91_params = demo_e91_params\<lparr>detection_efficiency := 2\<rparr>,
      e91_channel = demo_e91_channel,
      alice_measurements = [], e91_bob_measurements = [], bell_test_pairs = [], key_pairs = [],
      bell_parameter = 0, e91_sifted_key = [], e91_final_key = [],
      alice_transmission = 2, bob_transmission = 2\<rparr>"
  by (simp add: demo_e91_invalid_def E91Protocol_init_def e91_calculate_transmission_def
      demo_e91_channel_def demo_e91_params_def default_E91_ChannelParameters_def
      default_E91Parameters_def pow10_zero)

lemmas bb84_eval = run_protocol_def alice_prepare_def alice_prepare_step_def
  generate_random_bit_def generate_random_basis_def choose_intensity_def quantum_channel_def
  bob_measure_def basis_reconciliation_def error_estimation_def security_analysis_def
  error_correction_def privacy_amplification_def py_int_def py_prefix_def h2_def replay_def
  demo_channel_def demo_params_def demo_invalid_channel_def default_ChannelParameters_def
  default_BB84Parameters_def script_secure_def script_insecure_def Let_def numeral_2_eq_2

lemma expected_vals: "0 < expected_correlation 0 45" "0 < expected_correlation 45 45"
  by (rule expected_correlation_compat, simp add: is_key_compatible_def)+

lemmas e91_eval = e91_run_protocol_def generate_entangled_pairs_def alice_measure_def
  e91_bob_measure_def calculate_measurement_result_def coincidence_filtering_def
  basis_selection_def is_key_compatible_def bell_test_def chsh_S_def avg_correlations_def
  dict_get_def key_sifting_def e91_error_estimation_def e91_security_analysis_def
  e91_corrected_length_def e91_final_length_def py_int_def py_prefix_def h2_def replay_def
  demo_e91_params_def demo_e91_channel_def default_E91Parameters_def
  default_E91_ChannelParameters_def script_e91_def script_e91_few_def
  script_e91_measurements_def Let_def expected_vals





lemma demo_run_invalid:
  "run_protocol replay demo_invalid_bb84 script_secure =
    Inr (\<lparr>res_error = Some No_sifted_key_generated, res_success = False,
            res_final_key_bits = None, res_metrics = None,
            res_key_rate_bps = None, res_efficiency = None\<rparr>,
         \<lparr>params =
            \<lparr>pulse_rate_hz = 2, duration_seconds = 1,
               basis_choice_prob = 1 / 2, decoy_state_prob = 1 / 2,
               weak_intensity = 1 / 5, decoy_intensity = 1 / 10,
               error_correction_efficiency = 6 / 5,
               privacy_amplification_factor = 2,
               qber_threshold = 11 / 100\<rparr>,
            channel =
              \<lparr>loss_db_per_km = 1, distance_km = - 10,
                 depolarization_rate = 1 / 1000,
                 detector_efficiency = 4 / 5,
                 dark_count_rate = 1 / 1000000, timing_jitter_ns = 100\<rparr>,
            alice_bits = [ZERO, ONE],
            alice_bases = [RECTILINEAR, DIAGONAL],
            alice_intensities = [1, 1],
            bob_measurements =
              [\<lparr>det_bit = Some ONE, det_basis = DIAGONAL,
                  det_detected = True, det_dark_count = False,
                  det_timestamp = 0\<rparr>,
               \<lparr>det_bit = Some ZERO, det_basis = RECTILINEAR,
                  det_detected = True, det_dark_count = False,
                  det_timestamp = 1 / 2\<rparr>],
            sifted_key = [], error_rate = 0, final_key = [],
            transmission_prob = 8\<rparr>,
         [])"
  by (simp add: demo_invalid_bb84_eq bb84_eval)

lemma e91_demo_run:
  "e91_run_protocol replay demo_e91 script_e91 =
    Inr (\<lparr>eres_error = None, eres_success = True,
            eres_final_key_bits = Some 0,
            eres_metrics =
              Some
               \<lparr>em_bell_parameter = 4, em_qber = 0, em_secure = True,
                  em_eavesdropper_detected = False,
                  em_raw_key_rate_bps = 1, em_secure_key_rate_bps = 1\<rparr>,
            eres_bell_parameter = Some 4, eres_efficiency = Some 0\<rparr>,
         \<lparr>e91_params =
            \<lparr>pair_generation_rate_hz = 5, e91_duration_seconds = 1,
               detection_efficiency = 4 / 5,
               e91_dark_count_rate = 1 / 1000000,
               bell_test_fraction = 4 / 5, timing_window_ns = 1,
               bell_violation_threshold = 2,
               e91_error_correction_efficiency = 6 / 5,
               e91_privacy_amplification_factor = 2\<rparr>,
            e91_channel =
              \<lparr>e91_loss_db_per_km = 1 / 5, alice_distance_km = 0,
                 bob_distance_km = 0, e91_depolarization_rate = 1 / 1000,
                 e91_timing_jitter_ns = 100\<rparr>,
            alice_measurements =
              [\<lparr>basis_angle = 0, result = 0, timestamp = 0,
                  detected = True\<rparr>,
               \<lparr>basis_angle = 0, result = 0, timestamp = 1 / 5,
                  detected = True\<rparr>,
               \<lparr>basis_angle = 45, result = 0, timestamp = 2 / 5,
                  detected = True\<rparr>,
               \<lparr>basis_angle = 45, result = 1, timestamp = 3 / 5,
                  detected = True\<rparr>,
               \<lparr>basis_angle = 0, result = 0, timestamp = 4 / 5,
                  detected = True\<rparr>],
            e91_bob_measurements =
              [\<lparr>basis_angle = 45, result = 0, timestamp = 0,
                  detected = True\<rparr>,
               \<lparr>basis_angle = 135, result = 1, timestamp = 1 / 5,
                  detected = True\<rparr>,
               \<lparr>basis_angle = 45, result = 0, timestamp = 2 / 5,
                  detected = True\<rparr>,
               \<lparr>basis_angle = 135, result = 1, timestamp = 3 / 5,
                  detected = True\<rparr>,
               \<lparr>basis_angle = 45, result = 0, timestamp = 4 / 5,
                  detected = True\<rparr>],
            bell_test_pairs =
              [(\<lparr>basis_angle = 0, result = 0, timestamp = 0,
                   detected = True\<rparr>,
                \<lparr>basis_angle = 45, result = 0, timestamp = 0,
                   detected = True\<rparr>),
               (\<lparr>basis_angle = 0, result = 0, timestamp = 1 / 5,
                   detected = True\<rparr>,
                \<lparr>basis_angle = 135, result = 1, timestamp = 1 / 5,
                   detected = True\<rparr>),
               (\<lparr>basis_angle = 45, result = 0, timestamp = 2 / 5,
                   detected = True\<rparr>,
                \<lparr>basis_angle = 45, result = 0, timestamp = 2 / 5,
                   detected = True\<rparr>),
               (\<lparr>basis_angle = 45, result = 1, timestamp = 3 / 5,
                   detected = True\<rparr>,
                \<lparr>basis_angle = 135, result = 1, timestamp = 3 / 5,
                   detected = True\<rparr>)],
            key_pairs =
              [(\<lparr>basis_angle = 0, result = 0, timestamp = 4 / 5,
                   detected = True\<rparr>,
                \<lparr>basis_angle = 45, result = 0, timestamp = 4 / 5,
                   detected = True\<rparr>)],
            bell_parameter = 4, e91_sifted_key = [0], e91_final_key = [],
            alice_transmission = 4 / 5, bob_transmission = 4 / 5\<rparr>,
         [])"
  by (simp add: demo_e91_eq e91_eval eval_nat_numeral)


lemma e91_demo_run_invalid:
  "e91_run_protocol replay demo_e91_invalid script_e91 =
    Inr (\<lparr>eres_error = None, eres_success = True,
            eres_final_key_bits = Some 0,
            eres_metrics =
              Some
               \<lparr>em_bell_parameter = 4, em_qber = 0, em_secure = True,
                  em_eavesdropper_detected = False,
                  em_raw_key_rate_bps = 1, em_secure_key_rate_bps = 1\<rparr>,
            eres_bell_parameter = Some 4, eres_efficiency = Some 0\<rparr>,
         \<lparr>e91_params =
            \<lparr>pair_generation_rate_hz = 5, e91_duration_seconds = 1,
               detection_efficiency = 2,
               e91_dark_count_rate = 1 / 1000000,
               bell_test_fraction = 4 / 5, timing_window_ns = 1,
               bell_violation_threshold = 2,
               e91_error_correction_efficiency = 6 / 5,
               e91_privacy_amplification_factor = 2\<rparr>,
            e91_channel =
              \<lparr>e91_loss_db_per_km = 1 / 5, alice_distance_km = 0,
                 bob_distance_km = 0, e91_depolarization_rate = 1 / 1000,
                 e91_timing_jitter_ns = 100\<rparr>,
            alice_measurements =
              [\<lparr>basis_angle = 0, result = 0, timestamp = 0,
                  detected = True\<rparr>,
               \<lparr>basis_angle = 0, result = 0, timestamp = 1 / 5,
                  detected = True\<rparr>,
               \<lparr>basis_angle = 45, result = 0, timestamp = 2 / 5,
                  detected = True\<rparr>,
               \<lparr>basis_angle = 45, result = 1, timestamp = 3 / 5,
                  detected = True\<rparr>,
               \<lparr>basis_angle = 0, result = 0, timestamp = 4 / 5,
                  detected = True\<rparr>],
            e91_bob_measurements =
              [\<lparr>basis_angle = 45, result = 0, timestamp = 0,
                  detected = True\<rparr>,
               \<lparr>basis_angle = 135, result = 1, timestamp = 1 / 5,
                  detected = True\<rparr>,
               \<lparr>basis_angle = 45, result = 0, timestamp = 2 / 5,
                  detected = True\<rparr>,
               \<lparr>basis_angle = 135, result = 1, timestamp = 3 / 5,
                  detected = True\<rparr>,
               \<lparr>basis_angle = 45, result = 0, timestamp = 4 / 5,
                  detected = True\<rparr>],
            bell_test_pairs =
              [(\<lparr>basis_angle = 0, result = 0, timestamp = 0,
                   detected = True\<rparr>,
                \<lparr>basis_angle = 45, result = 0, timestamp = 0,
                   detected = True\<rparr>),
               (\<lparr>basis_angle = 0, result = 0, timestamp = 1 / 5,
                   detected = True\<rparr>,
                \<lparr>basis_angle = 135, result = 1, timestamp = 1 / 5,
                   detected = True\<rparr>),
               (\<lparr>basis_angle = 45, result = 0, timestamp = 2 / 5,
                   detected = True\<rparr>,
                \<lparr>basis_angle = 45, result = 0, timestamp = 2 / 5,
                   detected = True\<rparr>),
               (\<lparr>basis_angle = 45, result = 1, timestamp = 3 / 5,
                   detected = True\<rparr>,
                \<lparr>basis_angle = 135, result = 1, timestamp = 3 / 5,
                   detected = True\<rparr>)],
            key_pairs =
              [(\<lparr>basis_angle = 0, result = 0, timestamp = 4 / 5,
                   detected = True\<rparr>,
                \<lparr>basis_angle = 45, result = 0, timestamp = 4 / 5,
                   detected = True\<rparr>)],
            bell_parameter = 4, e91_sifted_key = [0], e91_final_key = [],
            alice_transmission = 2, bob_transmission = 2\<rparr>,
         [])"
  by (simp add: demo_e91_invalid_eq e91_eval eval_nat_numeral)

section \<open>A failed security check\<close>



section \<open>What the result of a run depends on\<close>




end
